theory Spec2Isabelle
  imports Complex_Main "HOL-Library.Sublist"
begin

section \<open>Python values\<close>

text \<open>
  A Python \<^verbatim>\<open>str\<close> is a sequence of Unicode code points. The messages of
  \<^verbatim>\<open>transcript.py\<close> are Korean and \<^verbatim>\<open>str.strip\<close> removes Unicode white space,
  so a string is modelled as the list of its code points.
\<close>

type_synonym codepoint = nat
type_synonym pystr = "codepoint list"

definition ascii :: "string \<Rightarrow> pystr" where
  "ascii s = map of_char s"

text \<open>\<^verbatim>\<open>sep.join(xs)\<close>\<close>

fun py_join :: "pystr \<Rightarrow> pystr list \<Rightarrow> pystr" where
  "py_join sep [] = []"
| "py_join sep [x] = x"
| "py_join sep (x # y # ys) = x @ sep @ py_join sep (y # ys)"

text \<open>
  \<^verbatim>\<open>round(x, 2)\<close>: the nearest multiple of 0.01, a tie going to the even multiple.
  Times are binary floating point numbers in Python; here they are rationals, so the
  last step of the Python function (the nearest representable float) is left out.
  Nothing proved below depends on the value of a time.
\<close>

definition round_half_even :: "rat \<Rightarrow> int" where
  "round_half_even y =
     (let f = \<lfloor>y\<rfloor>; d = y - of_int f
      in if d < 1 / 2 then f
         else if 1 / 2 < d then f + 1
         else if even f then f else f + 1)"

definition py_round2 :: "rat \<Rightarrow> rat" where
  "py_round2 x = of_int (round_half_even (x * 100)) / 100"

section \<open>The captions provider\<close>

text \<open>
  The provider is the library \<^verbatim>\<open>youtube_transcript_api\<close>, which is not part of the
  repository: it is a parameter of the model. Every call of the provider either returns
  or raises. The exceptions are instances of Python's \<^verbatim>\<open>Exception\<close>; the four classes
  that \<^verbatim>\<open>transcript.py\<close> imports are told apart, every other class is
  \<open>OtherException\<close>. An exception carries the text that \<^verbatim>\<open>str(e)\<close> gives.
\<close>

datatype exc_class =
  TranscriptsDisabled | NoTranscriptFound | VideoUnavailable | NoTranscriptAvailable
| OtherException

datatype py_exception = Exception (exc_class: exc_class) (exc_str: pystr)

record segment =
  seg_start :: rat
  seg_duration :: rat
  seg_text :: pystr

text \<open>
  A track: its attributes, and what \<^verbatim>\<open>fetch()\<close> does on it (one more call of the
  provider).
\<close>

record transcript =
  language_code :: pystr
  language :: pystr
  is_generated :: bool
  fetch :: "py_exception + segment list"

text \<open>
  The object that \<^verbatim>\<open>list_transcripts\<close> returns: its two lookups, and its iteration,
  which yields some tracks and then either stops or raises.
\<close>

record transcript_list =
  find_manually_created_transcript :: "pystr list \<Rightarrow> py_exception + transcript"
  find_generated_transcript :: "pystr list \<Rightarrow> py_exception + transcript"
  iterate :: "transcript list \<times> py_exception option"

record youtube_transcript_api =
  list_transcripts :: "pystr \<Rightarrow> py_exception + transcript_list"

section \<open>transcript.py\<close>

record transcript_result =
  success :: bool
  video_id :: pystr
  res_language :: "pystr option"
  res_is_generated :: bool
  segments :: "segment list"
  full_text :: pystr
  error :: "pystr option"

text \<open>The four message texts of \<^verbatim>\<open>extract_transcript\<close>, as code points.\<close>

definition msg_no_transcript :: pystr where
  "msg_no_transcript =
     [51060, 32, 50689, 49345, 50640, 32, 49324, 50857, 32, 44032, 45733, 54620, 32,
      51088, 47561, 51060, 32, 50630, 49845, 45768, 45796, 46]"

definition msg_disabled :: pystr where
  "msg_disabled =
     [51060, 32, 50689, 49345, 51008, 32, 51088, 47561, 51060, 32, 48708, 54876, 49457,
      54868, 46104, 50612, 32, 51080, 49845, 45768, 45796, 46]"

definition msg_unavailable :: pystr where
  "msg_unavailable =
     [50689, 49345, 51012, 32, 52286, 51012, 32, 49688, 32, 50630, 44144, 45208, 32,
      48708, 44277, 44060, 32, 49345, 53468, 51077, 45768, 45796, 46]"

definition msg_prefix :: pystr where
  "msg_prefix =
     [51088, 47561, 32, 52628, 52636, 32, 51473, 32, 50724, 47448, 32, 48156, 49373,
      58, 32]"

definition default_lang_priority :: "pystr list" where
  "default_lang_priority = [ascii ''ko'', ascii ''en'']"

definition initial_result :: "pystr \<Rightarrow> transcript_result" where
  "initial_result vid =
     \<lparr>success = False, video_id = vid, res_language = None, res_is_generated = False,
      segments = [], full_text = [], error = None\<rparr>"

text \<open>
  Step 2, the loop over the priority list: \<open>NoTranscriptFound\<close> goes on to the next
  language, any other exception leaves the loop (and the \<^verbatim>\<open>try\<close> block). The
  result dictionary is threaded through, as the loop writes to it.
\<close>

fun find_manual_loop ::
  "transcript_list \<Rightarrow> pystr list \<Rightarrow> transcript_result \<Rightarrow>
     (py_exception + transcript option) \<times> transcript_result" where
  "find_manual_loop tlist [] result = (Inr None, result)"
| "find_manual_loop tlist (lang # rest) result =
     (case find_manually_created_transcript tlist [lang] of
        Inr t \<Rightarrow> (Inr (Some t), result\<lparr>res_is_generated := False\<rparr>)
      | Inl e \<Rightarrow>
          if exc_class e = NoTranscriptFound then find_manual_loop tlist rest result
          else (Inl e, result))"

text \<open>Step 3, the same loop over the generated tracks.\<close>

fun find_generated_loop ::
  "transcript_list \<Rightarrow> pystr list \<Rightarrow> transcript_result \<Rightarrow>
     (py_exception + transcript option) \<times> transcript_result" where
  "find_generated_loop tlist [] result = (Inr None, result)"
| "find_generated_loop tlist (lang # rest) result =
     (case find_generated_transcript tlist [lang] of
        Inr t \<Rightarrow> (Inr (Some t), result\<lparr>res_is_generated := True\<rparr>)
      | Inl e \<Rightarrow>
          if exc_class e = NoTranscriptFound then find_generated_loop tlist rest result
          else (Inl e, result))"

text \<open>
  Step 4: the first track of the iteration, if there is one. An exception of the
  iteration is swallowed by the inner \<^verbatim>\<open>except Exception: pass\<close>.
\<close>

definition any_transcript ::
  "transcript_list \<Rightarrow> transcript_result \<Rightarrow> transcript option \<times> transcript_result" where
  "any_transcript tlist result =
     (case iterate tlist of
        (t # _, _) \<Rightarrow> (Some t, result\<lparr>res_is_generated := is_generated t\<rparr>)
      | ([], _) \<Rightarrow> (None, result))"

text \<open>Steps 2 to 4 together: the chosen track, or none, or an exception.\<close>

definition select_transcript ::
  "transcript_list \<Rightarrow> pystr list \<Rightarrow> transcript_result \<Rightarrow>
     (py_exception + transcript option) \<times> transcript_result" where
  "select_transcript tlist lang_priority result =
     (case find_manual_loop tlist lang_priority result of
        (Inl e, r) \<Rightarrow> (Inl e, r)
      | (Inr (Some t), r) \<Rightarrow> (Inr (Some t), r)
      | (Inr None, r) \<Rightarrow>
          (case find_generated_loop tlist lang_priority r of
             (Inl e, r') \<Rightarrow> (Inl e, r')
           | (Inr (Some t), r') \<Rightarrow> (Inr (Some t), r')
           | (Inr None, r') \<Rightarrow>
               (case any_transcript tlist r' of (tr, r'') \<Rightarrow> (Inr tr, r''))))"

definition segment_dict :: "segment \<Rightarrow> segment" where
  "segment_dict seg =
     \<lparr>seg_start = py_round2 (seg_start seg), seg_duration = py_round2 (seg_duration seg),
      seg_text = seg_text seg\<rparr>"

text \<open>
  The body of the \<^verbatim>\<open>try\<close> block. It ends by raising (\<open>Some e\<close>) or not
  (\<open>None\<close>: the early \<^verbatim>\<open>return result\<close> or the end of the block); in both cases
  the result dictionary is as the body left it. The calls of the provider are the
  places where it can raise: once the fetch has returned its segments, whose times are
  numbers and whose text is a string, the rounding and the join return.
\<close>

definition try_block ::
  "youtube_transcript_api \<Rightarrow> pystr \<Rightarrow> pystr list \<Rightarrow> transcript_result \<Rightarrow>
     py_exception option \<times> transcript_result" where
  "try_block api vid lang_priority result =
     (case list_transcripts api vid of
        Inl e \<Rightarrow> (Some e, result)
      | Inr tlist \<Rightarrow>
          (case select_transcript tlist lang_priority result of
             (Inl e, r) \<Rightarrow> (Some e, r)
           | (Inr None, r) \<Rightarrow> (None, r\<lparr>error := Some msg_no_transcript\<rparr>)
           | (Inr (Some t), r) \<Rightarrow>
               (case fetch t of
                  Inl e \<Rightarrow> (Some e, r)
                | Inr segs \<Rightarrow>
                    (None, r\<lparr>res_language := Some (language_code t),
                              segments := map segment_dict segs,
                              full_text := py_join [10] (map seg_text segs),
                              success := True\<rparr>))))"

text \<open>The \<^verbatim>\<open>except\<close> clauses, in the order of the source.\<close>

definition handler_message :: "py_exception \<Rightarrow> pystr" where
  "handler_message e =
     (if exc_class e = TranscriptsDisabled then msg_disabled
      else if exc_class e = VideoUnavailable then msg_unavailable
      else if exc_class e = NoTranscriptAvailable then msg_no_transcript
      else msg_prefix @ exc_str e)"

text \<open>The first statement: \<^verbatim>\<open>if lang_priority is None: lang_priority = ["ko", "en"]\<close>.\<close>

definition priority_or_default :: "pystr list option \<Rightarrow> pystr list" where
  "priority_or_default lang_priority =
     (case lang_priority of None \<Rightarrow> default_lang_priority | Some l \<Rightarrow> l)"

text \<open>
  The last clause catches every instance of \<^verbatim>\<open>Exception\<close>, so each way the
  \<^verbatim>\<open>try\<close> block can end leads to \<^verbatim>\<open>return result\<close>.
\<close>

definition extract_transcript ::
  "youtube_transcript_api \<Rightarrow> pystr \<Rightarrow> pystr list option \<Rightarrow> transcript_result" where
  "extract_transcript api vid lang_priority =
     (case try_block api vid (priority_or_default lang_priority) (initial_result vid) of
        (None, r) \<Rightarrow> r
      | (Some e, r) \<Rightarrow> r\<lparr>error := Some (handler_message e)\<rparr>)"

text \<open>\<^verbatim>\<open>list_available_languages\<close>: any exception, of the query or of the iteration, gives
  the failure dictionary; the success dictionary has no \<^verbatim>\<open>error\<close> key.\<close>

record language_entry =
  lang_code :: pystr
  lang_name :: pystr
  lang_is_generated :: bool

record languages_result =
  ll_success :: bool
  ll_video_id :: pystr
  languages :: "language_entry list"
  ll_error :: "pystr option"

definition language_dict :: "transcript \<Rightarrow> language_entry" where
  "language_dict t =
     \<lparr>lang_code = language_code t, lang_name = language t,
      lang_is_generated = is_generated t\<rparr>"

definition languages_failure :: "pystr \<Rightarrow> py_exception \<Rightarrow> languages_result" where
  "languages_failure vid e =
     \<lparr>ll_success = False, ll_video_id = vid, languages = [], ll_error = Some (exc_str e)\<rparr>"

definition list_available_languages ::
  "youtube_transcript_api \<Rightarrow> pystr \<Rightarrow> languages_result" where
  "list_available_languages api vid =
     (case list_transcripts api vid of
        Inl e \<Rightarrow> languages_failure vid e
      | Inr tlist \<Rightarrow>
          (case iterate tlist of
             (ts, Some e) \<Rightarrow> languages_failure vid e
           | (ts, None) \<Rightarrow>
               \<lparr>ll_success = True, ll_video_id = vid, languages = map language_dict ts,
                ll_error = None\<rparr>))"

section \<open>app.py\<close>

text \<open>\<^verbatim>\<open>s.split(sep)\<close> for a separator of one character: a scan of \<open>s\<close> that collects the
  current token in \<open>cur\<close>.\<close>

fun split_from :: "codepoint \<Rightarrow> pystr \<Rightarrow> pystr \<Rightarrow> pystr list" where
  "split_from sep cur [] = [cur]"
| "split_from sep cur (c # cs) =
     (if c = sep then cur # split_from sep [] cs else split_from sep (cur @ [c]) cs)"

definition py_split :: "codepoint \<Rightarrow> pystr \<Rightarrow> pystr list" where
  "py_split sep s = split_from sep [] s"

text \<open>The code points for which \<^verbatim>\<open>str.isspace\<close> holds; \<^verbatim>\<open>str.strip()\<close> removes them
  from both ends.\<close>

definition py_isspace :: "codepoint \<Rightarrow> bool" where
  "py_isspace c \<longleftrightarrow>
     (9 \<le> c \<and> c \<le> 13) \<or> (28 \<le> c \<and> c \<le> 32) \<or> c = 133 \<or> c = 160 \<or> c = 5760 \<or>
     (8192 \<le> c \<and> c \<le> 8202) \<or> c = 8232 \<or> c = 8233 \<or> c = 8239 \<or> c = 8287 \<or> c = 12288"

definition py_strip :: "pystr \<Rightarrow> pystr" where
  "py_strip s = rev (dropWhile py_isspace (rev (dropWhile py_isspace s)))"

definition comma :: codepoint where
  "comma = 44"

definition lang_list_of :: "pystr \<Rightarrow> pystr list" where
  "lang_list_of lang = [py_strip l. l \<leftarrow> py_split comma lang, py_strip l \<noteq> []]"

text \<open>The handler of \<^verbatim>\<open>GET /api/transcript\<close>; \<open>lang = None\<close> is a request without the
  \<^verbatim>\<open>lang\<close> parameter, for which the declared default is taken.\<close>

definition get_transcript ::
  "youtube_transcript_api \<Rightarrow> pystr \<Rightarrow> pystr option \<Rightarrow> transcript_result" where
  "get_transcript api v lang =
     (let lang' = (case lang of None \<Rightarrow> ascii ''ko,en'' | Some s \<Rightarrow> s)
      in extract_transcript api v (Some (lang_list_of lang')))"

definition get_languages :: "youtube_transcript_api \<Rightarrow> pystr \<Rightarrow> languages_result" where
  "get_languages api v = list_available_languages api v"

section \<open>A provider that serves a list of tracks\<close>

text \<open>
  Modelled from the spec: the lookups of the provider's track list, which belong to the
  library and not to the repository. The spec describes them in 4.1 (steps 2 to 4) and
  in 6: a lookup among the manually authored (or the generated) tracks returns the track
  with the requested language code, and fails with "no transcript found for requested
  language" if there is none; the enumeration yields every track, in the provider's
  order, and does not fail. The text of the exception is never seen by the callers
  below, which catch it.
\<close>

fun find_transcript :: "pystr list \<Rightarrow> transcript list \<Rightarrow> py_exception + transcript" where
  "find_transcript [] ts = Inl (Exception NoTranscriptFound (ascii ''NoTranscriptFound''))"
| "find_transcript (c # cs) ts =
     (case find (\<lambda>t. language_code t = c) ts of
        Some t \<Rightarrow> Inr t
      | None \<Rightarrow> find_transcript cs ts)"

definition TranscriptList :: "transcript list \<Rightarrow> transcript_list" where
  "TranscriptList tracks =
     \<lparr>find_manually_created_transcript =
        (\<lambda>codes. find_transcript codes (filter (\<lambda>t. \<not> is_generated t) tracks)),
      find_generated_transcript =
        (\<lambda>codes. find_transcript codes (filter is_generated tracks)),
      iterate = (tracks, None)\<rparr>"

section \<open>Shapes of the result, and example providers\<close>

text \<open>The two shapes a result can have: a failure with its message, and a fetched track.\<close>

abbreviation failure_result :: "pystr \<Rightarrow> bool \<Rightarrow> pystr \<Rightarrow> transcript_result" where
  "failure_result vid g m \<equiv>
     \<lparr>success = False, video_id = vid, res_language = None, res_is_generated = g,
      segments = [], full_text = [], error = Some m\<rparr>"

abbreviation fetched_result ::
  "pystr \<Rightarrow> transcript \<Rightarrow> bool \<Rightarrow> segment list \<Rightarrow> transcript_result" where
  "fetched_result vid t g segs \<equiv>
     \<lparr>success = True, video_id = vid, res_language = Some (language_code t),
      res_is_generated = g, segments = map segment_dict segs,
      full_text = py_join [10] (map seg_text segs), error = None\<rparr>"

text \<open>Providers and tracks for the concrete runs below.\<close>

definition failing_api :: "py_exception \<Rightarrow> youtube_transcript_api" where
  "failing_api e = \<lparr>list_transcripts = (\<lambda>vid. Inl e)\<rparr>"

definition tracks_api :: "transcript list \<Rightarrow> youtube_transcript_api" where
  "tracks_api tracks = \<lparr>list_transcripts = (\<lambda>vid. Inr (TranscriptList tracks))\<rparr>"

definition ex_segments :: "segment list" where
  "ex_segments =
     [\<lparr>seg_start = 0, seg_duration = 3 / 2, seg_text = ascii ''never''\<rparr>,
      \<lparr>seg_start = 3 / 2, seg_duration = 2, seg_text = ascii ''gonna''\<rparr>]"

definition ex_track :: "string \<Rightarrow> string \<Rightarrow> bool \<Rightarrow> transcript" where
  "ex_track c n g =
     \<lparr>language_code = ascii c, language = ascii n, is_generated = g, fetch = Inr ex_segments\<rparr>"

definition blocked_track :: transcript where
  "blocked_track =
     \<lparr>language_code = ascii ''fr'', language = ascii ''French'', is_generated = True,
      fetch = Inl (Exception OtherException (ascii ''blocked''))\<rparr>"

definition rick :: pystr where
  "rick = ascii ''dQw4w9WgXcQ''"

text \<open>A track list with no track found by the lookups, whose iteration raises at once.\<close>

definition broken_iteration :: transcript_list where
  "broken_iteration =
     \<lparr>find_manually_created_transcript = (\<lambda>codes. Inl (Exception NoTranscriptFound [])),
      find_generated_transcript = (\<lambda>codes. Inl (Exception NoTranscriptFound [])),
      iterate = ([], Some (Exception OtherException (ascii ''boom'')))\<rparr>"

definition broken_iteration_api :: youtube_transcript_api where
  "broken_iteration_api = \<lparr>list_transcripts = (\<lambda>vid. Inr broken_iteration)\<rparr>"

text \<open>
  Track lists whose lookups raise an exception of another class for the language
  \<^verbatim>\<open>en\<close>, a track list whose iteration raises after its first track, and tracks in a
  given language whose fetch raises.
\<close>

definition broken_lookup :: transcript_list where
  "broken_lookup =
     \<lparr>find_manually_created_transcript =
        (\<lambda>codes. if codes = [ascii ''ko''] then Inl (Exception NoTranscriptFound [])
                  else Inl (Exception OtherException (ascii ''reset''))),
      find_generated_transcript = (\<lambda>codes. Inl (Exception OtherException (ascii ''closed''))),
      iterate = ([ex_track ''en'' ''English'' False], None)\<rparr>"

definition blocked_in :: "string \<Rightarrow> bool \<Rightarrow> transcript" where
  "blocked_in c g =
     \<lparr>language_code = ascii c, language = ascii c, is_generated = g,
      fetch = Inl (Exception OtherException (ascii ''blocked''))\<rparr>"

definition broken_generated_lookup :: transcript_list where
  "broken_generated_lookup =
     \<lparr>find_manually_created_transcript = (\<lambda>codes. Inl (Exception NoTranscriptFound [])),
      find_generated_transcript =
        (\<lambda>codes. if codes = [ascii ''ko''] then Inl (Exception NoTranscriptFound [])
                  else Inl (Exception OtherException (ascii ''closed''))),
      iterate = ([ex_track ''en'' ''English'' True], None)\<rparr>"

definition late_iteration_failure :: transcript_list where
  "late_iteration_failure =
     \<lparr>find_manually_created_transcript = (\<lambda>codes. Inl (Exception NoTranscriptFound [])),
      find_generated_transcript = (\<lambda>codes. Inl (Exception NoTranscriptFound [])),
      iterate = ([ex_track ''fr'' ''French'' True],
                 Some (Exception OtherException (ascii ''boom'')))\<rparr>"

definition list_api :: "transcript_list \<Rightarrow> youtube_transcript_api" where
  "list_api tlist = \<lparr>list_transcripts = (\<lambda>vid. Inr tlist)\<rparr>"


section \<open>Lemmas\<close>

subsection \<open>The result dictionary through the selection\<close>

text \<open>The selection writes to \<^verbatim>\<open>is_generated\<close> only.\<close>

lemma find_manual_loop_frame:
  "snd (find_manual_loop tlist lp r) =
     r\<lparr>res_is_generated := res_is_generated (snd (find_manual_loop tlist lp r))\<rparr>"
  by (induction lp) (auto split: sum.splits)

lemma find_generated_loop_frame:
  "snd (find_generated_loop tlist lp r) =
     r\<lparr>res_is_generated := res_is_generated (snd (find_generated_loop tlist lp r))\<rparr>"
  by (induction lp) (auto split: sum.splits)

lemma any_transcript_frame:
  "snd (any_transcript tlist r) =
     r\<lparr>res_is_generated := res_is_generated (snd (any_transcript tlist r))\<rparr>"
  by (auto simp: any_transcript_def split: prod.splits list.splits)

lemma select_transcript_frame:
  "snd (select_transcript tlist lp r) =
     r\<lparr>res_is_generated := res_is_generated (snd (select_transcript tlist lp r))\<rparr>"
proof -
  obtain x r1 where m: "find_manual_loop tlist lp r = (x, r1)"
    by (cases "find_manual_loop tlist lp r")
  obtain y r2 where g: "find_generated_loop tlist lp r1 = (y, r2)"
    by (cases "find_generated_loop tlist lp r1")
  obtain z r3 where a: "any_transcript tlist r2 = (z, r3)"
    by (cases "any_transcript tlist r2")
  from find_manual_loop_frame[of tlist lp r] m
  have r1: "r1 = r\<lparr>res_is_generated := res_is_generated r1\<rparr>" by simp
  from find_generated_loop_frame[of tlist lp r1] g
  have "r2 = r1\<lparr>res_is_generated := res_is_generated r2\<rparr>" by simp
  with r1 have r2: "r2 = r\<lparr>res_is_generated := res_is_generated r2\<rparr>"
    by (metis (full_types) transcript_result.update_convs(4) transcript_result.surjective)
  from any_transcript_frame[of tlist r2] a
  have "r3 = r2\<lparr>res_is_generated := res_is_generated r3\<rparr>" by simp
  with r2 have r3: "r3 = r\<lparr>res_is_generated := res_is_generated r3\<rparr>"
    by (metis (full_types) transcript_result.update_convs(4) transcript_result.surjective)
  show ?thesis
    using m g a r1 r2 r3
    by (auto simp: select_transcript_def split: sum.splits option.splits)
qed

text \<open>Every way through \<^verbatim>\<open>extract_transcript\<close>, with the result it returns.\<close>

lemma extract_transcript_cases:
  "extract_transcript api vid lp =
     (case list_transcripts api vid of
        Inl e \<Rightarrow> failure_result vid False (handler_message e)
      | Inr tlist \<Rightarrow>
          (case select_transcript tlist (priority_or_default lp) (initial_result vid) of
             (Inl e, r) \<Rightarrow> failure_result vid (res_is_generated r) (handler_message e)
           | (Inr None, r) \<Rightarrow> failure_result vid (res_is_generated r) msg_no_transcript
           | (Inr (Some t), r) \<Rightarrow>
               (case fetch t of
                  Inl e \<Rightarrow> failure_result vid (res_is_generated r) (handler_message e)
                | Inr segs \<Rightarrow> fetched_result vid t (res_is_generated r) segs)))"
proof (cases "list_transcripts api vid")
  case (Inl e)
  then show ?thesis
    by (simp add: extract_transcript_def try_block_def initial_result_def)
next
  case (Inr tlist)
  obtain x r where
    s: "select_transcript tlist (priority_or_default lp) (initial_result vid) = (x, r)"
    by (cases "select_transcript tlist (priority_or_default lp) (initial_result vid)")
  from select_transcript_frame[of tlist "priority_or_default lp" "initial_result vid"] s
  have r: "r = (initial_result vid)\<lparr>res_is_generated := res_is_generated r\<rparr>" by simp
  have r': "r = \<lparr>success = False, video_id = vid, res_language = None,
                  res_is_generated = res_is_generated r, segments = [], full_text = [],
                  error = None\<rparr>"
    by (subst r) (simp add: initial_result_def)
  show ?thesis
    using Inr s
    apply (simp add: extract_transcript_def try_block_def split: sum.splits option.splits)
    apply (intro conjI allI impI)
    by (subst r', simp)+
qed

subsection \<open>The messages\<close>

lemma msgs_distinct:
  "msg_unavailable \<noteq> msg_disabled" "msg_unavailable \<noteq> msg_no_transcript"
  "msg_disabled \<noteq> msg_no_transcript"
  by (simp_all add: msg_unavailable_def msg_disabled_def msg_no_transcript_def)

lemma msgs_nonempty:
  "msg_unavailable \<noteq> []" "msg_disabled \<noteq> []" "msg_no_transcript \<noteq> []" "msg_prefix \<noteq> []"
  by (simp_all add: msg_unavailable_def msg_disabled_def msg_no_transcript_def msg_prefix_def)

lemma handler_message_nonempty: "handler_message e \<noteq> []"
  by (simp add: handler_message_def msgs_nonempty)

lemma seg_text_segment_dict: "seg_text \<circ> segment_dict = seg_text"
  by (rule ext) (simp add: segment_dict_def)

subsection \<open>The loops when no lookup succeeds\<close>

lemma find_manual_loop_none:
  assumes "\<forall>l\<in>set lp. \<exists>e. find_manually_created_transcript tlist [l] = Inl e \<and>
             exc_class e = NoTranscriptFound"
  shows "find_manual_loop tlist lp r = (Inr None, r)"
  using assms by (induction lp) auto

lemma find_generated_loop_none:
  assumes "\<forall>l\<in>set lp. \<exists>e. find_generated_transcript tlist [l] = Inl e \<and>
             exc_class e = NoTranscriptFound"
  shows "find_generated_loop tlist lp r = (Inr None, r)"
  using assms by (induction lp) auto

text \<open>The languages whose lookup raises \<open>NoTranscriptFound\<close> are passed over.\<close>

lemma find_manual_loop_skip:
  assumes "\<forall>l'\<in>set pre. \<exists>e'. find_manually_created_transcript tlist [l'] = Inl e' \<and>
             exc_class e' = NoTranscriptFound"
  shows "find_manual_loop tlist (pre @ rest) r = find_manual_loop tlist rest r"
  using assms by (induction pre) auto

lemma find_generated_loop_skip:
  assumes "\<forall>l'\<in>set pre. \<exists>e'. find_generated_transcript tlist [l'] = Inl e' \<and>
             exc_class e' = NoTranscriptFound"
  shows "find_generated_loop tlist (pre @ rest) r = find_generated_loop tlist rest r"
  using assms by (induction pre) auto

lemma handler_message_other:
  "exc_class e \<notin> {TranscriptsDisabled, VideoUnavailable, NoTranscriptAvailable} \<Longrightarrow>
   handler_message e = msg_prefix @ exc_str e"
  by (simp add: handler_message_def)

subsection \<open>The lookups of a provider that serves a list of tracks\<close>

lemma find_Some_set: "find P xs = Some x \<Longrightarrow> x \<in> set xs \<and> P x"
  by (induction xs) (auto split: if_splits)

lemma manual_lookup_found:
  assumes "t \<in> set tracks" "\<not> is_generated t" "language_code t = l"
  shows "\<exists>t'. find_manually_created_transcript (TranscriptList tracks) [l] = Inr t' \<and>
              t' \<in> set tracks \<and> \<not> is_generated t' \<and> language_code t' = l"
proof -
  let ?M = "filter (\<lambda>t. \<not> is_generated t) tracks"
  from assms have "find (\<lambda>t. language_code t = l) ?M \<noteq> None"
    by (auto simp: find_None_iff)
  then obtain t' where f: "find (\<lambda>t. language_code t = l) ?M = Some t'" by auto
  from find_Some_set[OF this] have "t' \<in> set ?M \<and> language_code t' = l" .
  with f show ?thesis by (simp add: TranscriptList_def)
qed

lemma manual_lookup_missing:
  assumes "\<forall>t\<in>set tracks. \<not> is_generated t \<longrightarrow> language_code t \<noteq> l"
  shows "\<exists>e. find_manually_created_transcript (TranscriptList tracks) [l] = Inl e \<and>
             exc_class e = NoTranscriptFound"
proof -
  from assms
  have "find (\<lambda>t. language_code t = l) (filter (\<lambda>t. \<not> is_generated t) tracks) = None"
    by (auto simp: find_None_iff)
  then show ?thesis by (simp add: TranscriptList_def)
qed

lemma generated_lookup_missing:
  assumes "\<forall>t\<in>set tracks. is_generated t \<longrightarrow> language_code t \<noteq> l"
  shows "\<exists>e. find_generated_transcript (TranscriptList tracks) [l] = Inl e \<and>
             exc_class e = NoTranscriptFound"
proof -
  from assms have "find (\<lambda>t. language_code t = l) (filter is_generated tracks) = None"
    by (auto simp: find_None_iff)
  then show ?thesis by (simp add: TranscriptList_def)
qed

text \<open>
  The manual loop stops at the first language of the list that has a manual track:
  induction on the priority list, with a case split on whether its head has one.
\<close>

lemma find_manual_loop_first:
  assumes "\<exists>t\<in>set tracks. \<not> is_generated t \<and> language_code t \<in> set lp"
  shows "\<exists>pre l post t.
           lp = pre @ l # post \<and>
           (\<forall>t'\<in>set tracks. \<not> is_generated t' \<longrightarrow> language_code t' \<notin> set pre) \<and>
           t \<in> set tracks \<and> \<not> is_generated t \<and> language_code t = l \<and>
           find_manual_loop (TranscriptList tracks) lp r =
             (Inr (Some t), r\<lparr>res_is_generated := False\<rparr>)"
  using assms
proof (induction lp)
  case Nil
  then show ?case by simp
next
  case (Cons l ls)
  show ?case
  proof (cases "\<exists>t\<in>set tracks. \<not> is_generated t \<and> language_code t = l")
    case True
    then obtain t where "t \<in> set tracks" "\<not> is_generated t" "language_code t = l" by blast
    from manual_lookup_found[OF this] obtain t' where
      t': "find_manually_created_transcript (TranscriptList tracks) [l] = Inr t'"
        "t' \<in> set tracks" "\<not> is_generated t'" "language_code t' = l" by blast
    have "l # ls = [] @ l # ls \<and>
          (\<forall>t'\<in>set tracks. \<not> is_generated t' \<longrightarrow> language_code t' \<notin> set []) \<and>
          t' \<in> set tracks \<and> \<not> is_generated t' \<and> language_code t' = l \<and>
          find_manual_loop (TranscriptList tracks) (l # ls) r =
             (Inr (Some t'), r\<lparr>res_is_generated := False\<rparr>)"
      using t' by simp
    then show ?thesis by blast
  next
    case False
    then have none: "\<forall>t\<in>set tracks. \<not> is_generated t \<longrightarrow> language_code t \<noteq> l" by blast
    from manual_lookup_missing[OF this] obtain e where
      e: "find_manually_created_transcript (TranscriptList tracks) [l] = Inl e"
        "exc_class e = NoTranscriptFound" by blast
    from Cons.prems none
    have "\<exists>t\<in>set tracks. \<not> is_generated t \<and> language_code t \<in> set ls"
      by auto
    from Cons.IH[OF this] obtain pre l' post t where
      ih: "ls = pre @ l' # post"
        "\<forall>t'\<in>set tracks. \<not> is_generated t' \<longrightarrow> language_code t' \<notin> set pre"
        "t \<in> set tracks" "\<not> is_generated t" "language_code t = l'"
        "find_manual_loop (TranscriptList tracks) ls r =
           (Inr (Some t), r\<lparr>res_is_generated := False\<rparr>)" by blast
    have "l # ls = (l # pre) @ l' # post \<and>
          (\<forall>t'\<in>set tracks. \<not> is_generated t' \<longrightarrow> language_code t' \<notin> set (l # pre)) \<and>
          t \<in> set tracks \<and> \<not> is_generated t \<and> language_code t = l' \<and>
          find_manual_loop (TranscriptList tracks) (l # ls) r =
             (Inr (Some t), r\<lparr>res_is_generated := False\<rparr>)"
      using ih e none by auto
    then show ?thesis by blast
  qed
qed

subsection \<open>Splitting and stripping\<close>

lemma py_join_Cons: "ys \<noteq> [] \<Longrightarrow> py_join sep (x # ys) = x @ sep @ py_join sep ys"
  by (cases ys) simp_all

lemma split_from_nonempty: "split_from sep cur s \<noteq> []"
  by (induction s arbitrary: cur) auto

lemma join_split_from: "py_join [sep] (split_from sep cur s) = cur @ s"
  by (induction s arbitrary: cur) (simp_all add: py_join_Cons split_from_nonempty)

lemma split_from_all:
  "\<forall>c\<in>set cur. P c \<Longrightarrow> \<forall>c\<in>set s. c = sep \<or> P c \<Longrightarrow>
   tok \<in> set (split_from sep cur s) \<Longrightarrow> \<forall>c\<in>set tok. P c"
proof (induction s arbitrary: cur)
  case Nil
  then show ?case by simp
next
  case (Cons c cs)
  show ?case
  proof (cases "c = sep")
    case True
    with Cons.prems have "tok = cur \<or> tok \<in> set (split_from sep [] cs)" by simp
    then show ?thesis
    proof
      assume "tok = cur"
      with Cons.prems(1) show ?thesis by simp
    next
      assume "tok \<in> set (split_from sep [] cs)"
      with Cons.IH[of "[]"] Cons.prems(2) show ?thesis by simp
    qed
  next
    case False
    with Cons.prems have t: "tok \<in> set (split_from sep (cur @ [c]) cs)" by simp
    from False Cons.prems have "\<forall>c'\<in>set (cur @ [c]). P c'" by auto
    from Cons.IH[OF this _ t] Cons.prems(2) show ?thesis by simp
  qed
qed

lemma split_from_no_sep:
  assumes "sep \<notin> set cur" and "tok \<in> set (split_from sep cur s)"
  shows "sep \<notin> set tok"
proof -
  have "\<forall>c\<in>set tok. c \<noteq> sep"
    by (rule split_from_all[OF _ _ assms(2)]) (use assms(1) in auto)
  then show ?thesis by auto
qed

lemma py_strip_all_space:
  assumes "\<forall>c\<in>set s. py_isspace c"
  shows "py_strip s = []"
proof -
  from assms have e: "dropWhile py_isspace s = []" by simp
  show ?thesis unfolding py_strip_def e by simp
qed

lemma py_strip_decomp:
  "\<exists>a b. s = a @ py_strip s @ b \<and> (\<forall>c\<in>set a. py_isspace c) \<and> (\<forall>c\<in>set b. py_isspace c)"
proof -
  let ?m = "dropWhile py_isspace s"
  let ?a = "takeWhile py_isspace s"
  let ?b = "rev (takeWhile py_isspace (rev ?m))"
  have "rev (takeWhile py_isspace (rev ?m) @ dropWhile py_isspace (rev ?m)) = ?m" by simp
  then have m: "?m = py_strip s @ ?b"
    unfolding rev_append py_strip_def by (rule sym)
  have "s = ?a @ ?m" by simp
  with m have "s = ?a @ py_strip s @ ?b" by simp
  moreover have "\<forall>c\<in>set ?a. py_isspace c" by (auto dest: set_takeWhileD)
  moreover have "\<forall>c\<in>set ?b. py_isspace c" by (auto dest: set_takeWhileD)
  ultimately show ?thesis by blast
qed

lemma py_strip_ends:
  assumes "py_strip s \<noteq> []"
  shows "\<not> py_isspace (hd (py_strip s)) \<and> \<not> py_isspace (last (py_strip s))"
proof -
  let ?m = "dropWhile py_isspace s"
  let ?d = "dropWhile py_isspace (rev ?m)"
  from assms have d: "?d \<noteq> []" by (simp add: py_strip_def)
  then have hd_d: "\<not> py_isspace (hd ?d)" by (rule hd_dropWhile)
  have last: "last (py_strip s) = hd ?d"
    using d by (simp add: py_strip_def last_rev)
  have m: "?m \<noteq> []"
  proof
    assume e: "?m = []"
    have "?d = []" unfolding e by simp
    with d show False ..
  qed
  then have hd_m: "\<not> py_isspace (hd ?m)" by (rule hd_dropWhile)
  have "rev (takeWhile py_isspace (rev ?m) @ ?d) = ?m" by simp
  then have "?m = py_strip s @ rev (takeWhile py_isspace (rev ?m))"
    unfolding rev_append py_strip_def by (rule sym)
  with assms have "hd (py_strip s) = hd ?m" by (metis hd_append2)
  with hd_m last hd_d show ?thesis by simp
qed

lemma comprehension_filter_map:
  "[f l. l \<leftarrow> xs, f l \<noteq> []] = filter (\<lambda>t. t \<noteq> []) (map f xs)"
  by (induction xs) auto

lemma lang_list_of_default: "lang_list_of (ascii ''ko,en'') = [ascii ''ko'', ascii ''en'']"
  by (simp add: lang_list_of_def py_split_def comma_def ascii_def py_strip_def py_isspace_def)

lemma lang_list_of_blank:
  assumes "\<forall>c\<in>set lang. c = comma \<or> py_isspace c"
  shows "lang_list_of lang = []"
proof -
  have "\<forall>tok\<in>set (py_split comma lang). py_strip tok = []"
  proof
    fix tok assume "tok \<in> set (py_split comma lang)"
    then have t: "tok \<in> set (split_from comma [] lang)" by (simp add: py_split_def)
    have "\<forall>c\<in>set tok. py_isspace c"
      by (rule split_from_all[OF _ assms t]) simp
    then show "py_strip tok = []" by (rule py_strip_all_space)
  qed
  then show ?thesis
    by (simp add: lang_list_of_def comprehension_filter_map filter_empty_conv)
qed

text \<open>The definitions to unfold when a concrete run is evaluated.\<close>

lemmas run_defs =
  extract_transcript_def try_block_def select_transcript_def any_transcript_def
  priority_or_default_def default_lang_priority_def initial_result_def handler_message_def
  TranscriptList_def tracks_api_def failing_api_def ex_track_def ex_segments_def
  blocked_track_def segment_dict_def ascii_def rick_def

lemmas failure_run_defs =
  run_defs broken_lookup_def broken_generated_lookup_def late_iteration_failure_def
  broken_iteration_def broken_iteration_api_def list_api_def blocked_in_def

section \<open>The selection policy\<close>

text \<open>
  C1. When the provider serves a list of tracks and some manually authored track has a
  language of the priority list, \<^verbatim>\<open>extract_transcript\<close> selects a manually authored
  track \<open>t\<close> whose language \<open>l\<close> is the first language of the priority list that has a
  manual track (no language before \<open>l\<close> in the list has one), whatever generated tracks
  there are, also in the language \<open>l\<close> itself. The result has \<^verbatim>\<open>is_generated\<close> false: it
  is the track's language and segments when the fetch of \<open>t\<close> returns, and the error
  result when the fetch raises.
\<close>

theorem manual_track_preferred:
  assumes "list_transcripts api vid = Inr (TranscriptList tracks)"
    and "\<exists>t\<in>set tracks. \<not> is_generated t \<and> language_code t \<in> set (priority_or_default lp)"
  shows "\<exists>pre l post t.
           priority_or_default lp = pre @ l # post \<and>
           (\<forall>t'\<in>set tracks. \<not> is_generated t' \<longrightarrow> language_code t' \<notin> set pre) \<and>
           t \<in> set tracks \<and> \<not> is_generated t \<and> language_code t = l \<and>
           extract_transcript api vid lp =
             (case fetch t of
                Inr segs \<Rightarrow> fetched_result vid t False segs
              | Inl e \<Rightarrow> failure_result vid False (handler_message e))"
proof -
  from find_manual_loop_first[OF assms(2), of "initial_result vid"] obtain pre l post t where
    h: "priority_or_default lp = pre @ l # post"
      "\<forall>t'\<in>set tracks. \<not> is_generated t' \<longrightarrow> language_code t' \<notin> set pre"
      "t \<in> set tracks" "\<not> is_generated t" "language_code t = l"
      "find_manual_loop (TranscriptList tracks) (priority_or_default lp) (initial_result vid) =
         (Inr (Some t), (initial_result vid)\<lparr>res_is_generated := False\<rparr>)" by blast
  have "extract_transcript api vid lp =
             (case fetch t of
                Inr segs \<Rightarrow> fetched_result vid t False segs
              | Inl e \<Rightarrow> failure_result vid False (handler_message e))"
    using assms(1) h(6)
    by (simp add: extract_transcript_cases select_transcript_def split: sum.splits)
  with h(1-5) show ?thesis by blast
qed

text \<open>
  A run of C1: a generated Korean track, a manual English track and a manual Korean
  track, with the default priority. The manual Korean track is returned.
\<close>

theorem manual_track_preferred_witness:
  "list_transcripts
     (tracks_api [ex_track ''ko'' ''Korean'' True, ex_track ''en'' ''English'' False,
                  ex_track ''ko'' ''Korean'' False]) rick =
     Inr (TranscriptList [ex_track ''ko'' ''Korean'' True, ex_track ''en'' ''English'' False,
                          ex_track ''ko'' ''Korean'' False]) \<and>
   \<not> is_generated (ex_track ''ko'' ''Korean'' False) \<and>
   language_code (ex_track ''ko'' ''Korean'' False) \<in> set (priority_or_default None) \<and>
   extract_transcript
     (tracks_api [ex_track ''ko'' ''Korean'' True, ex_track ''en'' ''English'' False,
                  ex_track ''ko'' ''Korean'' False]) rick None =
     fetched_result rick (ex_track ''ko'' ''Korean'' False) False ex_segments"
  using manual_track_preferred
          [of "tracks_api [ex_track ''ko'' ''Korean'' True, ex_track ''en'' ''English'' False,
                           ex_track ''ko'' ''Korean'' False]" rick
              "[ex_track ''ko'' ''Korean'' True, ex_track ''en'' ''English'' False,
                ex_track ''ko'' ''Korean'' False]" None]
  by (simp add: run_defs)

text \<open>
  C2, as amended. When the provider serves a non-empty list of tracks, none of them in a
  language of the priority list, \<^verbatim>\<open>extract_transcript\<close> falls back to the first track
  of the enumeration and the result's \<^verbatim>\<open>is_generated\<close> is that track's own flag. The
  result has \<^verbatim>\<open>success\<close> true, with the track's language and segments, when the fetch
  of that track returns; when the fetch raises, the result is the error result.
\<close>

theorem fallback_to_first_track:
  assumes "list_transcripts api vid = Inr (TranscriptList (t # rest))"
    and "\<forall>t'\<in>set (t # rest). language_code t' \<notin> set (priority_or_default lp)"
  shows "extract_transcript api vid lp =
           (case fetch t of
              Inr segs \<Rightarrow> fetched_result vid t (is_generated t) segs
            | Inl e \<Rightarrow> failure_result vid (is_generated t) (handler_message e))"
proof -
  have m: "\<forall>l\<in>set (priority_or_default lp).
             \<exists>e. find_manually_created_transcript (TranscriptList (t # rest)) [l] = Inl e \<and>
                 exc_class e = NoTranscriptFound"
    using assms(2) by (intro ballI manual_lookup_missing) auto
  have g: "\<forall>l\<in>set (priority_or_default lp).
             \<exists>e. find_generated_transcript (TranscriptList (t # rest)) [l] = Inl e \<and>
                 exc_class e = NoTranscriptFound"
    using assms(2) by (intro ballI generated_lookup_missing) auto
  have i: "iterate (TranscriptList (t # rest)) = (t # rest, None)"
    by (simp add: TranscriptList_def)
  show ?thesis
    using assms(1) i
    by (simp add: extract_transcript_cases select_transcript_def any_transcript_def
          find_manual_loop_none[OF m] find_generated_loop_none[OF g] split: sum.splits)
qed

text \<open>
  A run of the amended C2: a generated French track and a manual Japanese track, with
  the default priority. The French track, the first of the enumeration, is returned and
  the result is flagged as generated.
\<close>

theorem fallback_to_first_track_witness:
  "list_transcripts
     (tracks_api [ex_track ''fr'' ''French'' True, ex_track ''ja'' ''Japanese'' False]) rick =
     Inr (TranscriptList [ex_track ''fr'' ''French'' True, ex_track ''ja'' ''Japanese'' False]) \<and>
   language_code (ex_track ''fr'' ''French'' True) \<notin> set (priority_or_default None) \<and>
   language_code (ex_track ''ja'' ''Japanese'' False) \<notin> set (priority_or_default None) \<and>
   extract_transcript
     (tracks_api [ex_track ''fr'' ''French'' True, ex_track ''ja'' ''Japanese'' False]) rick None =
     fetched_result rick (ex_track ''fr'' ''French'' True) True ex_segments"
  using fallback_to_first_track
          [of "tracks_api [ex_track ''fr'' ''French'' True, ex_track ''ja'' ''Japanese'' False]"
              rick "ex_track ''fr'' ''French'' True" "[ex_track ''ja'' ''Japanese'' False]" None]
  by (simp add: run_defs)

text \<open>
  C2 as it is stated fails: the only track is French, outside the default priority, and
  its fetch raises. The fallback selects it, and the result has \<^verbatim>\<open>success\<close> false.
\<close>

theorem fallback_fetch_failure_counterexample:
  "list_transcripts (tracks_api [blocked_track]) rick = Inr (TranscriptList [blocked_track]) \<and>
   [blocked_track] \<noteq> [] \<and>
   language_code blocked_track \<notin> set (priority_or_default None) \<and>
   \<not> success (extract_transcript (tracks_api [blocked_track]) rick None)"
  by (simp add: run_defs)

section \<open>The result\<close>

text \<open>
  C3. For every successful result of \<^verbatim>\<open>extract_transcript\<close>, \<^verbatim>\<open>full_text\<close> is the
  texts of the result's segments, in their order, joined with the newline character.
\<close>

theorem full_text_joins_segments:
  assumes "success (extract_transcript api vid lp)"
  shows "full_text (extract_transcript api vid lp) =
           py_join [10] (map seg_text (segments (extract_transcript api vid lp)))"
  using assms
  by (simp add: extract_transcript_cases seg_text_segment_dict
        split: sum.splits prod.splits option.splits)

theorem full_text_joins_segments_witness:
  "success (extract_transcript (tracks_api [ex_track ''en'' ''English'' True]) rick None) \<and>
   full_text (extract_transcript (tracks_api [ex_track ''en'' ''English'' True]) rick None) =
     ascii ''never'' @ [10] @ ascii ''gonna'' \<and>
   map seg_text
     (segments (extract_transcript (tracks_api [ex_track ''en'' ''English'' True]) rick None)) =
     [ascii ''never'', ascii ''gonna'']"
  using full_text_joins_segments [of "tracks_api [ex_track ''en'' ''English'' True]" rick None]
  by (simp add: run_defs)

text \<open>
  C4. Every result of \<^verbatim>\<open>extract_transcript\<close>: if \<^verbatim>\<open>success\<close> is true then
  \<^verbatim>\<open>error\<close> is \<^verbatim>\<open>None\<close>; if \<^verbatim>\<open>success\<close> is false then \<^verbatim>\<open>segments\<close> is empty and
  \<^verbatim>\<open>error\<close> is a message, which is not the empty string; so a result never has both
  an error message and segments.
\<close>

theorem result_error_xor_segments:
  "(let r = extract_transcript api vid lp
    in (success r \<longrightarrow> error r = None) \<and>
       (\<not> success r \<longrightarrow> segments r = [] \<and> (\<exists>m. error r = Some m \<and> m \<noteq> [])) \<and>
       \<not> (error r \<noteq> None \<and> segments r \<noteq> []))"
  by (simp add: extract_transcript_cases Let_def handler_message_nonempty msgs_nonempty
        split: sum.splits prod.splits option.splits)

theorem result_error_xor_segments_witness:
  "success (extract_transcript (tracks_api [ex_track ''en'' ''English'' True]) rick None) \<and>
   error (extract_transcript (tracks_api [ex_track ''en'' ''English'' True]) rick None) = None \<and>
   \<not> success (extract_transcript (tracks_api []) rick None) \<and>
   segments (extract_transcript (tracks_api []) rick None) = [] \<and>
   error (extract_transcript (tracks_api []) rick None) = Some msg_no_transcript"
  using result_error_xor_segments [of "tracks_api [ex_track ''en'' ''English'' True]" rick None]
        result_error_xor_segments [of "tracks_api []" rick None]
  by (simp add: run_defs)

section \<open>Failures\<close>

text \<open>
  C5, as amended. \<^verbatim>\<open>extract_transcript\<close> returns a result for every video id,
  priority and provider: it is a total function into the results. Let \<open>e\<close> be an
  exception of none of the three classes with a message of their own. Then the result
  is the failure result whose message is the fixed prefix followed by the text of \<open>e\<close>
  in each of these cases:
  \<^item> the enumeration of the tracks raises \<open>e\<close>;
  \<^item> a lookup among the manual tracks raises \<open>e\<close>, not of class \<open>NoTranscriptFound\<close>,
    the lookups for the languages before it having found nothing;
  \<^item> the same for a lookup among the generated tracks, no manual lookup having found
    a track;
  \<^item> the fetch of the selected track raises \<open>e\<close>, the track being selected by a manual
    lookup, by a generated lookup or by the fallback step.

  An exception of the iteration in the fallback step is not reported. When it is raised
  before any track was yielded the result is the failure result for a video without
  transcripts, and when a first track was yielded the result is the one of fetching
  that track.
\<close>

theorem unrecognized_failure_reported:
  assumes "exc_class e \<notin> {TranscriptsDisabled, VideoUnavailable, NoTranscriptAvailable}"
  shows
    "(list_transcripts api vid = Inl e \<longrightarrow>
        extract_transcript api vid lp = failure_result vid False (msg_prefix @ exc_str e)) \<and>
     (list_transcripts api vid = Inr tlist \<and> priority_or_default lp = pre @ l # post \<and>
      (\<forall>l'\<in>set pre. \<exists>e'. find_manually_created_transcript tlist [l'] = Inl e' \<and>
                          exc_class e' = NoTranscriptFound) \<and>
      find_manually_created_transcript tlist [l] = Inl e \<and> exc_class e \<noteq> NoTranscriptFound \<longrightarrow>
        extract_transcript api vid lp = failure_result vid False (msg_prefix @ exc_str e)) \<and>
     (list_transcripts api vid = Inr tlist \<and> priority_or_default lp = pre @ l # post \<and>
      (\<forall>l'\<in>set pre. \<exists>e'. find_manually_created_transcript tlist [l'] = Inl e' \<and>
                          exc_class e' = NoTranscriptFound) \<and>
      find_manually_created_transcript tlist [l] = Inr t \<and> fetch t = Inl e \<longrightarrow>
        extract_transcript api vid lp = failure_result vid False (msg_prefix @ exc_str e)) \<and>
     (list_transcripts api vid = Inr tlist \<and> priority_or_default lp = pre @ l # post \<and>
      (\<forall>l'\<in>set (priority_or_default lp).
          \<exists>e'. find_manually_created_transcript tlist [l'] = Inl e' \<and>
               exc_class e' = NoTranscriptFound) \<and>
      (\<forall>l'\<in>set pre. \<exists>e'. find_generated_transcript tlist [l'] = Inl e' \<and>
                          exc_class e' = NoTranscriptFound) \<and>
      find_generated_transcript tlist [l] = Inl e \<and> exc_class e \<noteq> NoTranscriptFound \<longrightarrow>
        extract_transcript api vid lp = failure_result vid False (msg_prefix @ exc_str e)) \<and>
     (list_transcripts api vid = Inr tlist \<and> priority_or_default lp = pre @ l # post \<and>
      (\<forall>l'\<in>set (priority_or_default lp).
          \<exists>e'. find_manually_created_transcript tlist [l'] = Inl e' \<and>
               exc_class e' = NoTranscriptFound) \<and>
      (\<forall>l'\<in>set pre. \<exists>e'. find_generated_transcript tlist [l'] = Inl e' \<and>
                          exc_class e' = NoTranscriptFound) \<and>
      find_generated_transcript tlist [l] = Inr t \<and> fetch t = Inl e \<longrightarrow>
        extract_transcript api vid lp = failure_result vid True (msg_prefix @ exc_str e)) \<and>
     (list_transcripts api vid = Inr tlist \<and>
      (\<forall>l'\<in>set (priority_or_default lp).
          \<exists>e'. find_manually_created_transcript tlist [l'] = Inl e' \<and>
               exc_class e' = NoTranscriptFound) \<and>
      (\<forall>l'\<in>set (priority_or_default lp).
          \<exists>e'. find_generated_transcript tlist [l'] = Inl e' \<and>
               exc_class e' = NoTranscriptFound) \<and>
      iterate tlist = (t # ts, x) \<and> fetch t = Inl e \<longrightarrow>
        extract_transcript api vid lp =
          failure_result vid (is_generated t) (msg_prefix @ exc_str e)) \<and>
     (list_transcripts api vid = Inr tlist \<and>
      (\<forall>l'\<in>set (priority_or_default lp).
          \<exists>e'. find_manually_created_transcript tlist [l'] = Inl e' \<and>
               exc_class e' = NoTranscriptFound) \<and>
      (\<forall>l'\<in>set (priority_or_default lp).
          \<exists>e'. find_generated_transcript tlist [l'] = Inl e' \<and>
               exc_class e' = NoTranscriptFound) \<and>
      iterate tlist = ([], Some e) \<longrightarrow>
        extract_transcript api vid lp = failure_result vid False msg_no_transcript) \<and>
     (list_transcripts api vid = Inr tlist \<and>
      (\<forall>l'\<in>set (priority_or_default lp).
          \<exists>e'. find_manually_created_transcript tlist [l'] = Inl e' \<and>
               exc_class e' = NoTranscriptFound) \<and>
      (\<forall>l'\<in>set (priority_or_default lp).
          \<exists>e'. find_generated_transcript tlist [l'] = Inl e' \<and>
               exc_class e' = NoTranscriptFound) \<and>
      iterate tlist = (t # ts, Some e) \<and> fetch t = Inr segs \<longrightarrow>
        extract_transcript api vid lp = fetched_result vid t (is_generated t) segs)"
proof (intro conjI impI; (elim conjE)?)
  note h = handler_message_other[OF assms]
  show "extract_transcript api vid lp = failure_result vid False (msg_prefix @ exc_str e)"
    if "list_transcripts api vid = Inl e"
    using that by (simp add: extract_transcript_cases h)
  show "extract_transcript api vid lp = failure_result vid False (msg_prefix @ exc_str e)"
    if "list_transcripts api vid = Inr tlist" "priority_or_default lp = pre @ l # post"
      "\<forall>l'\<in>set pre. \<exists>e'. find_manually_created_transcript tlist [l'] = Inl e' \<and>
                          exc_class e' = NoTranscriptFound"
      "find_manually_created_transcript tlist [l] = Inl e" "exc_class e \<noteq> NoTranscriptFound"
    using that(1,2,4,5)
    by (simp add: extract_transcript_cases select_transcript_def h
          find_manual_loop_skip[OF that(3)] initial_result_def)
  show "extract_transcript api vid lp = failure_result vid False (msg_prefix @ exc_str e)"
    if "list_transcripts api vid = Inr tlist" "priority_or_default lp = pre @ l # post"
      "\<forall>l'\<in>set pre. \<exists>e'. find_manually_created_transcript tlist [l'] = Inl e' \<and>
                          exc_class e' = NoTranscriptFound"
      "find_manually_created_transcript tlist [l] = Inr t" "fetch t = Inl e"
    using that(1,2,4,5)
    by (simp add: extract_transcript_cases select_transcript_def h
          find_manual_loop_skip[OF that(3)] initial_result_def)
  show "extract_transcript api vid lp = failure_result vid False (msg_prefix @ exc_str e)"
    if "list_transcripts api vid = Inr tlist" "priority_or_default lp = pre @ l # post"
      "\<forall>l'\<in>set (priority_or_default lp).
          \<exists>e'. find_manually_created_transcript tlist [l'] = Inl e' \<and>
               exc_class e' = NoTranscriptFound"
      "\<forall>l'\<in>set pre. \<exists>e'. find_generated_transcript tlist [l'] = Inl e' \<and>
                          exc_class e' = NoTranscriptFound"
      "find_generated_transcript tlist [l] = Inl e" "exc_class e \<noteq> NoTranscriptFound"
  proof -
    have "find_generated_loop tlist (priority_or_default lp) (initial_result vid) =
            (Inl e, initial_result vid)"
      using that(5,6) by (simp add: that(2) find_generated_loop_skip[OF that(4)])
    then show ?thesis
      using that(1)
      by (simp add: extract_transcript_cases select_transcript_def h
            find_manual_loop_none[OF that(3)] initial_result_def)
  qed
  show "extract_transcript api vid lp = failure_result vid True (msg_prefix @ exc_str e)"
    if "list_transcripts api vid = Inr tlist" "priority_or_default lp = pre @ l # post"
      "\<forall>l'\<in>set (priority_or_default lp).
          \<exists>e'. find_manually_created_transcript tlist [l'] = Inl e' \<and>
               exc_class e' = NoTranscriptFound"
      "\<forall>l'\<in>set pre. \<exists>e'. find_generated_transcript tlist [l'] = Inl e' \<and>
                          exc_class e' = NoTranscriptFound"
      "find_generated_transcript tlist [l] = Inr t" "fetch t = Inl e"
  proof -
    have "find_generated_loop tlist (priority_or_default lp) (initial_result vid) =
            (Inr (Some t), (initial_result vid)\<lparr>res_is_generated := True\<rparr>)"
      using that(5) by (simp add: that(2) find_generated_loop_skip[OF that(4)])
    then show ?thesis
      using that(1,6)
      by (simp add: extract_transcript_cases select_transcript_def h
            find_manual_loop_none[OF that(3)])
  qed
  show "extract_transcript api vid lp =
          failure_result vid (is_generated t) (msg_prefix @ exc_str e)"
    if "list_transcripts api vid = Inr tlist"
      "\<forall>l'\<in>set (priority_or_default lp).
          \<exists>e'. find_manually_created_transcript tlist [l'] = Inl e' \<and>
               exc_class e' = NoTranscriptFound"
      "\<forall>l'\<in>set (priority_or_default lp).
          \<exists>e'. find_generated_transcript tlist [l'] = Inl e' \<and>
               exc_class e' = NoTranscriptFound"
      "iterate tlist = (t # ts, x)" "fetch t = Inl e"
    using that(1,4,5)
    by (simp add: extract_transcript_cases select_transcript_def any_transcript_def h
          find_manual_loop_none[OF that(2)] find_generated_loop_none[OF that(3)])
  show "extract_transcript api vid lp = failure_result vid False msg_no_transcript"
    if "list_transcripts api vid = Inr tlist"
      "\<forall>l'\<in>set (priority_or_default lp).
          \<exists>e'. find_manually_created_transcript tlist [l'] = Inl e' \<and>
               exc_class e' = NoTranscriptFound"
      "\<forall>l'\<in>set (priority_or_default lp).
          \<exists>e'. find_generated_transcript tlist [l'] = Inl e' \<and>
               exc_class e' = NoTranscriptFound"
      "iterate tlist = ([], Some e)"
    using that(1,4)
    by (simp add: extract_transcript_cases select_transcript_def any_transcript_def
          find_manual_loop_none[OF that(2)] find_generated_loop_none[OF that(3)]
          initial_result_def)
  show "extract_transcript api vid lp = fetched_result vid t (is_generated t) segs"
    if "list_transcripts api vid = Inr tlist"
      "\<forall>l'\<in>set (priority_or_default lp).
          \<exists>e'. find_manually_created_transcript tlist [l'] = Inl e' \<and>
               exc_class e' = NoTranscriptFound"
      "\<forall>l'\<in>set (priority_or_default lp).
          \<exists>e'. find_generated_transcript tlist [l'] = Inl e' \<and>
               exc_class e' = NoTranscriptFound"
      "iterate tlist = (t # ts, Some e)" "fetch t = Inr segs"
    using that(1,4,5)
    by (simp add: extract_transcript_cases select_transcript_def any_transcript_def
          find_manual_loop_none[OF that(2)] find_generated_loop_none[OF that(3)])
qed

text \<open>
  Runs of the amended C5, one for each case: the enumeration raises; the manual lookup
  for \<^verbatim>\<open>en\<close> raises; the fetch of a manual track raises; the generated lookup for
  \<^verbatim>\<open>en\<close> raises; the fetch of a generated track raises; the fetch of the fallback
  track raises; the iteration raises at once; the iteration raises after its first
  track.
\<close>

theorem unrecognized_failure_reported_witness:
  "extract_transcript (failing_api (Exception OtherException (ascii ''timed out''))) rick None =
     failure_result rick False (msg_prefix @ ascii ''timed out'') \<and>
   find_manually_created_transcript broken_lookup [ascii ''ko''] =
     Inl (Exception NoTranscriptFound []) \<and>
   find_manually_created_transcript broken_lookup [ascii ''en''] =
     Inl (Exception OtherException (ascii ''reset'')) \<and>
   extract_transcript (list_api broken_lookup) rick None =
     failure_result rick False (msg_prefix @ ascii ''reset'') \<and>
   extract_transcript (tracks_api [blocked_in ''ko'' False]) rick None =
     failure_result rick False (msg_prefix @ ascii ''blocked'') \<and>
   find_generated_transcript broken_generated_lookup [ascii ''en''] =
     Inl (Exception OtherException (ascii ''closed'')) \<and>
   extract_transcript (list_api broken_generated_lookup) rick None =
     failure_result rick False (msg_prefix @ ascii ''closed'') \<and>
   extract_transcript (tracks_api [blocked_in ''en'' True]) rick None =
     failure_result rick True (msg_prefix @ ascii ''blocked'') \<and>
   extract_transcript (tracks_api [blocked_track]) rick None =
     failure_result rick True (msg_prefix @ ascii ''blocked'') \<and>
   extract_transcript broken_iteration_api rick None =
     failure_result rick False msg_no_transcript \<and>
   extract_transcript (list_api late_iteration_failure) rick None =
     fetched_result rick (ex_track ''fr'' ''French'' True) True ex_segments"
  using unrecognized_failure_reported
          [where e = "Exception OtherException (ascii ''timed out'')" and vid = rick and
             lp = None and
             api = "failing_api (Exception OtherException (ascii ''timed out''))"]
        unrecognized_failure_reported
          [where e = "Exception OtherException (ascii ''reset'')" and vid = rick and
             lp = None and api = "list_api broken_lookup" and tlist = broken_lookup and
             pre = "[ascii ''ko'']" and l = "ascii ''en''" and post = "[]"]
        unrecognized_failure_reported
          [where e = "Exception OtherException (ascii ''blocked'')" and vid = rick and
             lp = None and api = "tracks_api [blocked_in ''ko'' False]" and
             tlist = "TranscriptList [blocked_in ''ko'' False]" and
             pre = "[]" and l = "ascii ''ko''" and post = "[ascii ''en'']" and
             t = "blocked_in ''ko'' False"]
        unrecognized_failure_reported
          [where e = "Exception OtherException (ascii ''closed'')" and vid = rick and
             lp = None and api = "list_api broken_generated_lookup" and
             tlist = broken_generated_lookup and
             pre = "[ascii ''ko'']" and l = "ascii ''en''" and post = "[]"]
        unrecognized_failure_reported
          [where e = "Exception OtherException (ascii ''blocked'')" and vid = rick and
             lp = None and api = "tracks_api [blocked_in ''en'' True]" and
             tlist = "TranscriptList [blocked_in ''en'' True]" and
             pre = "[ascii ''ko'']" and l = "ascii ''en''" and post = "[]" and
             t = "blocked_in ''en'' True"]
        unrecognized_failure_reported
          [where e = "Exception OtherException (ascii ''blocked'')" and vid = rick and
             lp = None and api = "tracks_api [blocked_track]" and
             tlist = "TranscriptList [blocked_track]" and t = blocked_track and
             ts = "[]" and x = None]
        unrecognized_failure_reported
          [where e = "Exception OtherException (ascii ''boom'')" and vid = rick and
             lp = None and api = broken_iteration_api and tlist = broken_iteration]
        unrecognized_failure_reported
          [where e = "Exception OtherException (ascii ''boom'')" and vid = rick and
             lp = None and api = "list_api late_iteration_failure" and
             tlist = late_iteration_failure and t = "ex_track ''fr'' ''French'' True" and
             ts = "[]" and segs = ex_segments]
  by (simp add: failure_run_defs)


text \<open>
  C5 as it is stated fails: the lookups find no track and the iteration of the fallback
  step raises. The inner handler swallows the exception, and the message of the result
  is the one for a video without transcripts, which does not contain the exception's
  text.
\<close>

theorem swallowed_iteration_failure_counterexample:
  "list_transcripts broken_iteration_api rick = Inr broken_iteration \<and>
   iterate broken_iteration = ([], Some (Exception OtherException (ascii ''boom''))) \<and>
   extract_transcript broken_iteration_api rick None =
     failure_result rick False msg_no_transcript \<and>
   \<not> sublist (ascii ''boom'') msg_no_transcript"
proof -
  have "\<not> set (ascii ''boom'') \<subseteq> set msg_no_transcript"
    by (simp add: ascii_def msg_no_transcript_def)
  then have "\<not> sublist (ascii ''boom'') msg_no_transcript"
    using set_mono_sublist by blast
  then show ?thesis
    by (simp add: run_defs broken_iteration_api_def broken_iteration_def)
qed

text \<open>
  C6. When the enumeration of the tracks raises \<^verbatim>\<open>VideoUnavailable\<close>,
  \<^verbatim>\<open>TranscriptsDisabled\<close> or \<^verbatim>\<open>NoTranscriptAvailable\<close>, the result has \<^verbatim>\<open>success\<close>
  false and the message of that class; the three messages are non-empty and pairwise
  distinct.
\<close>

theorem enumeration_failure_messages:
  assumes "list_transcripts api vid = Inl e"
    and "exc_class e \<in> {VideoUnavailable, TranscriptsDisabled, NoTranscriptAvailable}"
  shows "extract_transcript api vid lp =
           failure_result vid False
             (if exc_class e = VideoUnavailable then msg_unavailable
              else if exc_class e = TranscriptsDisabled then msg_disabled
              else msg_no_transcript) \<and>
         msg_unavailable \<noteq> msg_disabled \<and> msg_unavailable \<noteq> msg_no_transcript \<and>
         msg_disabled \<noteq> msg_no_transcript \<and>
         msg_unavailable \<noteq> [] \<and> msg_disabled \<noteq> [] \<and> msg_no_transcript \<noteq> []"
  using assms
  by (auto simp: extract_transcript_cases handler_message_def msgs_distinct msgs_nonempty)

theorem enumeration_failure_messages_witness:
  "extract_transcript (failing_api (Exception VideoUnavailable (ascii ''gone'')))
     (ascii ''invalid_id'') None =
     failure_result (ascii ''invalid_id'') False msg_unavailable \<and>
   extract_transcript (failing_api (Exception TranscriptsDisabled (ascii ''off''))) rick None =
     failure_result rick False msg_disabled \<and>
   extract_transcript (failing_api (Exception NoTranscriptAvailable (ascii ''none''))) rick None =
     failure_result rick False msg_no_transcript"
  using enumeration_failure_messages
          [of "failing_api (Exception VideoUnavailable (ascii ''gone''))" "ascii ''invalid_id''"
              "Exception VideoUnavailable (ascii ''gone'')" None]
        enumeration_failure_messages
          [of "failing_api (Exception TranscriptsDisabled (ascii ''off''))" rick
              "Exception TranscriptsDisabled (ascii ''off'')" None]
        enumeration_failure_messages
          [of "failing_api (Exception NoTranscriptAvailable (ascii ''none''))" rick
              "Exception NoTranscriptAvailable (ascii ''none'')" None]
  by (simp add: failing_api_def)

text \<open>
  C7. For a video with no track (the enumeration returns, every lookup of a priority
  language raises \<open>NoTranscriptFound\<close>, and the iteration yields nothing and does not
  raise), the result has \<^verbatim>\<open>success\<close> false, a non-empty error message and no segments.
\<close>

theorem zero_tracks_no_transcript:
  assumes "list_transcripts api vid = Inr tlist"
    and "\<forall>l\<in>set (priority_or_default lp).
           \<exists>e. find_manually_created_transcript tlist [l] = Inl e \<and>
               exc_class e = NoTranscriptFound"
    and "\<forall>l\<in>set (priority_or_default lp).
           \<exists>e. find_generated_transcript tlist [l] = Inl e \<and> exc_class e = NoTranscriptFound"
    and "iterate tlist = ([], None)"
  shows "extract_transcript api vid lp = failure_result vid False msg_no_transcript \<and>
         msg_no_transcript \<noteq> []"
  using assms(1,4)
  by (simp add: extract_transcript_cases select_transcript_def any_transcript_def
        find_manual_loop_none[OF assms(2)] find_generated_loop_none[OF assms(3)]
        initial_result_def msgs_nonempty)

text \<open>A run of C7: the provider serves the empty list of tracks.\<close>

theorem zero_tracks_no_transcript_witness:
  "list_transcripts (tracks_api []) rick = Inr (TranscriptList []) \<and>
   priority_or_default None = [ascii ''ko'', ascii ''en''] \<and>
   exc_class (projl (find_manually_created_transcript (TranscriptList []) [ascii ''ko''])) =
     NoTranscriptFound \<and>
   exc_class (projl (find_manually_created_transcript (TranscriptList []) [ascii ''en''])) =
     NoTranscriptFound \<and>
   exc_class (projl (find_generated_transcript (TranscriptList []) [ascii ''ko''])) =
     NoTranscriptFound \<and>
   exc_class (projl (find_generated_transcript (TranscriptList []) [ascii ''en''])) =
     NoTranscriptFound \<and>
   iterate (TranscriptList []) = ([], None) \<and>
   extract_transcript (tracks_api []) rick None = failure_result rick False msg_no_transcript"
  using zero_tracks_no_transcript [of "tracks_api []" rick "TranscriptList []" None]
  by (simp add: tracks_api_def TranscriptList_def priority_or_default_def
        default_lang_priority_def)

section \<open>The language lister\<close>

text \<open>
  C8. When the enumeration and the iteration return, \<^verbatim>\<open>list_available_languages\<close>
  gives, for each track and in the order of the iteration, its language code, its
  language name and its generated flag. When either raises, the result has
  \<^verbatim>\<open>success\<close> false, the exception's text as the error and no languages. The function
  is total: it returns one of the two in every case.
\<close>

theorem list_available_languages_projects:
  "(\<forall>tlist ts. list_transcripts api vid = Inr tlist \<and> iterate tlist = (ts, None) \<longrightarrow>
      list_available_languages api vid =
        \<lparr>ll_success = True, ll_video_id = vid,
         languages = map (\<lambda>t. \<lparr>lang_code = language_code t, lang_name = language t,
                                 lang_is_generated = is_generated t\<rparr>) ts,
         ll_error = None\<rparr>) \<and>
   (\<forall>e. list_transcripts api vid = Inl e \<or>
        (\<exists>tlist ts. list_transcripts api vid = Inr tlist \<and> iterate tlist = (ts, Some e)) \<longrightarrow>
      list_available_languages api vid =
        \<lparr>ll_success = False, ll_video_id = vid, languages = [], ll_error = Some (exc_str e)\<rparr>)"
  by (auto simp: list_available_languages_def languages_failure_def language_dict_def)

text \<open>Two runs of C8: the scenario of the spec, and captions that are disabled.\<close>

theorem list_available_languages_projects_witness:
  "list_available_languages
     (tracks_api [ex_track ''en'' ''English'' False, ex_track ''ko'' ''Korean'' True]) rick =
     \<lparr>ll_success = True, ll_video_id = rick,
      languages =
        [\<lparr>lang_code = ascii ''en'', lang_name = ascii ''English'', lang_is_generated = False\<rparr>,
         \<lparr>lang_code = ascii ''ko'', lang_name = ascii ''Korean'', lang_is_generated = True\<rparr>],
      ll_error = None\<rparr> \<and>
   list_available_languages (failing_api (Exception TranscriptsDisabled (ascii ''off''))) rick =
     \<lparr>ll_success = False, ll_video_id = rick, languages = [], ll_error = Some (ascii ''off'')\<rparr>"
  using list_available_languages_projects
          [of "tracks_api [ex_track ''en'' ''English'' False, ex_track ''ko'' ''Korean'' True]" rick]
        list_available_languages_projects
          [of "failing_api (Exception TranscriptsDisabled (ascii ''off''))" rick]
  by (simp add: tracks_api_def failing_api_def TranscriptList_def ex_track_def)

section \<open>The handler of the transcript endpoint\<close>

text \<open>
  C9. For every \<^verbatim>\<open>lang\<close> string, \<^verbatim>\<open>get_transcript\<close> calls \<^verbatim>\<open>extract_transcript\<close>
  with the tokens of \<^verbatim>\<open>lang\<close> between its commas, in their order, each stripped of the
  white space around it, the tokens that are then empty left out; without \<^verbatim>\<open>lang\<close>
  the priority is \<^verbatim>\<open>["ko", "en"]\<close>. The tokens are the comma-separated ones: joined
  with commas they give the string back, and none contains a comma. Stripping removes
  white space at both ends and nothing else, and leaves no white space at either end.
\<close>

theorem get_transcript_priority:
  "get_transcript api v lang =
     extract_transcript api v
       (Some (filter (\<lambda>tok. tok \<noteq> [])
          (map py_strip (py_split comma (case lang of None \<Rightarrow> ascii ''ko,en'' | Some s \<Rightarrow> s))))) \<and>
   get_transcript api v None = extract_transcript api v (Some [ascii ''ko'', ascii ''en'']) \<and>
   py_join [comma] (py_split comma s) = s \<and>
   (\<forall>tok\<in>set (py_split comma s). comma \<notin> set tok) \<and>
   (\<exists>a b. s = a @ py_strip s @ b \<and> (\<forall>c\<in>set a. py_isspace c) \<and> (\<forall>c\<in>set b. py_isspace c)) \<and>
   (py_strip s \<noteq> [] \<longrightarrow> \<not> py_isspace (hd (py_strip s)) \<and> \<not> py_isspace (last (py_strip s)))"
proof (intro conjI)
  show "get_transcript api v lang =
     extract_transcript api v
       (Some (filter (\<lambda>tok. tok \<noteq> [])
          (map py_strip (py_split comma (case lang of None \<Rightarrow> ascii ''ko,en'' | Some s \<Rightarrow> s)))))"
    by (simp add: get_transcript_def lang_list_of_def comprehension_filter_map)
  show "get_transcript api v None = extract_transcript api v (Some [ascii ''ko'', ascii ''en''])"
    by (simp add: get_transcript_def lang_list_of_default)
  show "py_join [comma] (py_split comma s) = s"
    by (simp add: py_split_def join_split_from)
  show "\<forall>tok\<in>set (py_split comma s). comma \<notin> set tok"
    using split_from_no_sep[of comma "[]" _ s] by (auto simp: py_split_def)
  show "\<exists>a b. s = a @ py_strip s @ b \<and> (\<forall>c\<in>set a. py_isspace c) \<and> (\<forall>c\<in>set b. py_isspace c)"
    by (rule py_strip_decomp)
  show "py_strip s \<noteq> [] \<longrightarrow> \<not> py_isspace (hd (py_strip s)) \<and> \<not> py_isspace (last (py_strip s))"
    using py_strip_ends by blast
qed

text \<open>A run of C9: the string \<^verbatim>\<open>" en , ,ko,,"\<close> gives the priority \<^verbatim>\<open>["en", "ko"]\<close>.\<close>

theorem get_transcript_priority_witness:
  "get_transcript (tracks_api []) rick (Some (ascii '' en , ,ko,,'')) =
     extract_transcript (tracks_api []) rick (Some [ascii ''en'', ascii ''ko'']) \<and>
   get_transcript (tracks_api []) rick None =
     extract_transcript (tracks_api []) rick (Some [ascii ''ko'', ascii ''en'']) \<and>
   py_split comma (ascii '' en , ,ko,,'') = [ascii '' en '', ascii '' '', ascii ''ko'', [], []] \<and>
   py_strip (ascii '' en '') = ascii ''en''"
  using get_transcript_priority
          [of "tracks_api []" rick "Some (ascii '' en , ,ko,,'')" "ascii '' en , ,ko,,''"]
        get_transcript_priority [of "tracks_api []" rick None "ascii '' en ''"]
  by (simp add: py_split_def py_strip_def py_isspace_def comma_def ascii_def)

text \<open>
  C10. The default priority is taken for \<^verbatim>\<open>None\<close> only; a given list is used as it is,
  also the empty one, which is what a \<^verbatim>\<open>lang\<close> string of commas and white space
  produces. With the empty list the selection makes no lookup and is the fallback step
  alone: the result is determined by the enumeration, the first track of the iteration
  and its fetch.
\<close>

theorem empty_priority_skips_search:
  "priority_or_default None = [ascii ''ko'', ascii ''en''] \<and>
   priority_or_default (Some l) = l \<and>
   ((\<forall>c\<in>set lang. c = comma \<or> py_isspace c) \<longrightarrow>
      get_transcript api vid (Some lang) = extract_transcript api vid (Some [])) \<and>
   select_transcript tlist [] r = (case any_transcript tlist r of (tr, r') \<Rightarrow> (Inr tr, r')) \<and>
   extract_transcript api vid (Some []) =
     (case list_transcripts api vid of
        Inl e \<Rightarrow> failure_result vid False (handler_message e)
      | Inr tlist \<Rightarrow>
          (case fst (iterate tlist) of
             [] \<Rightarrow> failure_result vid False msg_no_transcript
           | t # _ \<Rightarrow>
               (case fetch t of
                  Inr segs \<Rightarrow> fetched_result vid t (is_generated t) segs
                | Inl e \<Rightarrow> failure_result vid (is_generated t) (handler_message e))))"
proof (intro conjI)
  show "priority_or_default None = [ascii ''ko'', ascii ''en'']"
    by (simp add: priority_or_default_def default_lang_priority_def)
  show "priority_or_default (Some l) = l"
    by (simp add: priority_or_default_def)
  show "(\<forall>c\<in>set lang. c = comma \<or> py_isspace c) \<longrightarrow>
      get_transcript api vid (Some lang) = extract_transcript api vid (Some [])"
    by (simp add: get_transcript_def lang_list_of_blank)
  show "select_transcript tlist [] r =
          (case any_transcript tlist r of (tr, r') \<Rightarrow> (Inr tr, r'))"
    by (simp add: select_transcript_def)
  show "extract_transcript api vid (Some []) =
     (case list_transcripts api vid of
        Inl e \<Rightarrow> failure_result vid False (handler_message e)
      | Inr tlist \<Rightarrow>
          (case fst (iterate tlist) of
             [] \<Rightarrow> failure_result vid False msg_no_transcript
           | t # _ \<Rightarrow>
               (case fetch t of
                  Inr segs \<Rightarrow> fetched_result vid t (is_generated t) segs
                | Inl e \<Rightarrow> failure_result vid (is_generated t) (handler_message e))))"
    by (simp add: extract_transcript_cases select_transcript_def any_transcript_def
          priority_or_default_def initial_result_def
          split: sum.splits prod.splits list.splits)
qed

text \<open>
  A run of C10: a generated French track and a manual Korean track. The string
  \<^verbatim>\<open>" , ,"\<close> and the empty list give the French track, the first of the enumeration;
  the omitted priority gives the Korean one.
\<close>

theorem empty_priority_skips_search_witness:
  "list_all (\<lambda>c. c = comma \<or> py_isspace c) (ascii '' , ,'') \<and>
   get_transcript
     (tracks_api [ex_track ''fr'' ''French'' True, ex_track ''ko'' ''Korean'' False]) rick
     (Some (ascii '' , ,'')) =
     fetched_result rick (ex_track ''fr'' ''French'' True) True ex_segments \<and>
   extract_transcript
     (tracks_api [ex_track ''fr'' ''French'' True, ex_track ''ko'' ''Korean'' False]) rick
     (Some []) =
     fetched_result rick (ex_track ''fr'' ''French'' True) True ex_segments \<and>
   extract_transcript
     (tracks_api [ex_track ''fr'' ''French'' True, ex_track ''ko'' ''Korean'' False]) rick
     None =
     fetched_result rick (ex_track ''ko'' ''Korean'' False) False ex_segments"
  using empty_priority_skips_search
          [where lang = "ascii '' , ,''" and vid = rick and
             api = "tracks_api [ex_track ''fr'' ''French'' True, ex_track ''ko'' ''Korean'' False]"]
  by (simp add: run_defs get_transcript_def lang_list_of_def py_split_def py_strip_def
        py_isspace_def comma_def)

end
